theory Spec2Isabelle
  imports Main "HOL-Library.Word"
begin

section \<open>Ed25519 keys of js-libp2p (browser build): \<^verbatim>\<open>keys/ed25519/index.browser.ts\<close>\<close>

subsection \<open>Byte arrays\<close>

type_synonym byte = "8 word"

text \<open>
  A \<^verbatim>\<open>Uint8Array\<close> is a window onto an \<^verbatim>\<open>ArrayBuffer\<close>. The record keeps the
  backing buffer cut at the two edges of the window: the bytes in front of it, the bytes
  the array shows, and the bytes behind it. The JavaScript properties \<^verbatim>\<open>buffer\<close>,
  \<^verbatim>\<open>byteOffset\<close> and \<^verbatim>\<open>length\<close> are read off this record, so a window never
  reaches outside its buffer.
\<close>

record uint8array =
  before :: "byte list"
  window :: "byte list"
  after :: "byte list"

definition buffer :: "uint8array \<Rightarrow> byte list" where
  "buffer a = before a @ window a @ after a"

definition byteOffset :: "uint8array \<Rightarrow> nat" where
  "byteOffset a = length (before a)"

definition u8_length :: "uint8array \<Rightarrow> nat" where
  "u8_length a = length (window a)"

definition bytes :: "uint8array \<Rightarrow> byte list" where
  "bytes a = window a"

text \<open>\<^verbatim>\<open>new Uint8Array(n)\<close>: a zero-filled array on a buffer of its own.\<close>

definition new_Uint8Array :: "nat \<Rightarrow> uint8array" where
  "new_Uint8Array n = \<lparr>before = [], window = replicate n 0, after = []\<rparr>"

text \<open>\<^verbatim>\<open>new Uint8Array(buffer, 0, buffer.byteLength)\<close>: the array that shows a whole buffer.\<close>

definition Uint8Array_of_buffer :: "byte list \<Rightarrow> uint8array" where
  "Uint8Array_of_buffer bs = \<lparr>before = [], window = bs, after = []\<rparr>"

definition spans_buffer :: "uint8array \<Rightarrow> bool" where
  "spans_buffer a \<longleftrightarrow> byteOffset a = 0 \<and> u8_length a = length (buffer a)"

text \<open>
  \<^verbatim>\<open>a[i]\<close> reads \<^verbatim>\<open>undefined\<close> (here \<open>None\<close>) at and beyond \<^verbatim>\<open>a.length\<close>; a store
  \<^verbatim>\<open>a[i] = v\<close> converts \<^verbatim>\<open>v\<close> to a byte, \<^verbatim>\<open>undefined\<close> becoming 0, and does nothing
  when \<^verbatim>\<open>i\<close> is out of range.
\<close>

definition u8_get :: "uint8array \<Rightarrow> nat \<Rightarrow> byte option" where
  "u8_get a i = (if i < u8_length a then Some (window a ! i) else None)"

definition ToUint8 :: "byte option \<Rightarrow> byte" where
  "ToUint8 v = (case v of None \<Rightarrow> 0 | Some b \<Rightarrow> b)"

definition u8_set :: "uint8array \<Rightarrow> nat \<Rightarrow> byte option \<Rightarrow> uint8array" where
  "u8_set a i v = (if i < u8_length a then a\<lparr>window := (window a)[i := ToUint8 v]\<rparr> else a)"

text \<open>
  \<^verbatim>\<open>a.subarray(begin, end)\<close> for non-negative indices: a window on the same buffer, with
  both indices clamped to the length; \<^verbatim>\<open>end\<close> left out (\<open>None\<close>) means the length.
\<close>

definition subarray :: "uint8array \<Rightarrow> nat \<Rightarrow> nat option \<Rightarrow> uint8array" where
  "subarray a begin end_opt =
     (let n = u8_length a;
          b = min begin n;
          e = max b (min (case end_opt of None \<Rightarrow> n | Some e \<Rightarrow> e) n)
      in \<lparr>before = before a @ take b (window a),
          window = take (e - b) (drop b (window a)),
          after = drop e (window a) @ after a\<rparr>)"

subsection \<open>Constants\<close>

definition PUBLIC_KEY_BYTE_LENGTH :: nat where
  "PUBLIC_KEY_BYTE_LENGTH = 32"

definition PRIVATE_KEY_BYTE_LENGTH :: nat where
  "PRIVATE_KEY_BYTE_LENGTH = 64"

definition KEYS_BYTE_LENGTH :: nat where
  "KEYS_BYTE_LENGTH = 32"

subsection \<open>concatKeys\<close>

text \<open>
  The body of the \<^verbatim>\<open>for\<close> loop of \<^verbatim>\<open>concatKeys\<close>, from index \<open>i\<close> on: two stores per
  round, one into each half of the new array.
\<close>

function concatKeys_loop :: "nat \<Rightarrow> uint8array \<Rightarrow> uint8array \<Rightarrow> uint8array \<Rightarrow> uint8array" where
  "concatKeys_loop i privateKeyRaw publicKey privateKey =
     (if i < KEYS_BYTE_LENGTH
      then concatKeys_loop (i + 1) privateKeyRaw publicKey
             (u8_set (u8_set privateKey i (u8_get privateKeyRaw i))
                (KEYS_BYTE_LENGTH + i) (u8_get publicKey i))
      else privateKey)"
  by pat_completeness auto
termination
  by (relation "measure (\<lambda>(i, _, _, _). KEYS_BYTE_LENGTH - i)") auto

definition concatKeys :: "uint8array \<Rightarrow> uint8array \<Rightarrow> uint8array" where
  "concatKeys privateKeyRaw publicKey =
     concatKeys_loop 0 privateKeyRaw publicKey (new_Uint8Array PRIVATE_KEY_BYTE_LENGTH)"

text \<open>The first 32 bytes of a byte string, zero-filled up to 32 when it is shorter.\<close>

definition first32 :: "byte list \<Rightarrow> byte list" where
  "first32 xs = take 32 xs @ replicate (32 - length xs) 0"

subsection \<open>Key generation\<close>

text \<open>
  The pair \<^verbatim>\<open>{ privateKey, publicKey }\<close> of the interface \<^verbatim>\<open>Uint8ArrayKeyPair\<close>.
\<close>

record keypair =
  kp_privateKey :: uint8array
  kp_publicKey :: uint8array

text \<open>
  \<^verbatim>\<open>ed.getPublicKey\<close> belongs to the curve library \<^verbatim>\<open>@noble/curves\<close>; it is a parameter
  \<open>getPublicKey\<close> of the functions below, from the bytes of the private key to the array
  it returns. \<^verbatim>\<open>ed.utils.randomPrivateKey()\<close> draws from the system's random source: the
  array it returns is the argument \<open>randomPrivateKey\<close> of \<open>generateKey\<close>.
\<close>

type_synonym curve = "byte list \<Rightarrow> uint8array"

definition generateKey :: "curve \<Rightarrow> uint8array \<Rightarrow> keypair" where
  "generateKey getPublicKey randomPrivateKey =
     (let privateKeyRaw = randomPrivateKey;
          publicKey = getPublicKey (bytes privateKeyRaw);
          privateKey = concatKeys privateKeyRaw publicKey
      in \<lparr>kp_privateKey = privateKey, kp_publicKey = publicKey\<rparr>)"

text \<open>
  The errors of this file. \<open>InvalidSeedLength\<close> is
  \<^verbatim>\<open>TypeError('"seed" must be 32 bytes in length.')\<close>, \<open>InvalidSeedType\<close> is
  \<^verbatim>\<open>TypeError('"seed" must be a node.js Buffer, or Uint8Array.')\<close>, \<open>NativeTypeError\<close>
  is what JavaScript throws on reading a property of \<^verbatim>\<open>null\<close> or \<^verbatim>\<open>undefined\<close>,
  \<open>WebCryptoMissing\<close> is what \<^verbatim>\<open>crypto.get()\<close> throws where the platform has no
  engine, and \<open>EngineError\<close> carries the name of an exception the engine rejects with.
\<close>

datatype error =
    InvalidSeedLength
  | InvalidSeedType
  | NativeTypeError
  | WebCryptoMissing
  | EngineError string

text \<open>
  The parameter \<^verbatim>\<open>seed\<close> is declared a \<^verbatim>\<open>Uint8Array\<close>, but the function tests
  \<^verbatim>\<open>instanceof\<close> at run time, so the values it can meet are: a \<^verbatim>\<open>Uint8Array\<close>; any
  other value with properties, given by its \<^verbatim>\<open>length\<close> property where that is a
  natural number (\<open>None\<close> where it is anything else); \<^verbatim>\<open>null\<close> or \<^verbatim>\<open>undefined\<close>.
\<close>

datatype seed_arg =
    SeedUint8Array uint8array
  | SeedOther "nat option"
  | SeedNullish

definition seed_length :: "seed_arg \<Rightarrow> error + nat option" where
  "seed_length seed =
     (case seed of
        SeedUint8Array a \<Rightarrow> Inr (Some (u8_length a))
      | SeedOther l \<Rightarrow> Inr l
      | SeedNullish \<Rightarrow> Inl NativeTypeError)"

definition instanceof_Uint8Array :: "seed_arg \<Rightarrow> uint8array option" where
  "instanceof_Uint8Array seed = (case seed of SeedUint8Array a \<Rightarrow> Some a | _ \<Rightarrow> None)"

definition generateKeyFromSeed :: "curve \<Rightarrow> seed_arg \<Rightarrow> error + keypair" where
  "generateKeyFromSeed getPublicKey seed =
     (case seed_length seed of
        Inl e \<Rightarrow> Inl e
      | Inr l \<Rightarrow>
          if l \<noteq> Some KEYS_BYTE_LENGTH then Inl InvalidSeedLength
          else (case instanceof_Uint8Array seed of
                  None \<Rightarrow> Inl InvalidSeedType
                | Some privateKeyRaw \<Rightarrow>
                    (let publicKey = getPublicKey (bytes privateKeyRaw);
                         privateKey = concatKeys privateKeyRaw publicKey
                     in Inr \<lparr>kp_privateKey = privateKey, kp_publicKey = publicKey\<rparr>)))"

subsection \<open>Text encoding\<close>

text \<open>
  \<^verbatim>\<open>uint8arrayToString(bytes, 'base64url')\<close> of the library \<^verbatim>\<open>uint8arrays\<close>: the
  base64 encoding with the URL-safe alphabet and no padding, three bytes to four
  characters.
\<close>

definition base64url_alphabet :: string where
  "base64url_alphabet =
     ''ABCDEFGHIJKLMNOPQRSTUVWXYZabcdefghijklmnopqrstuvwxyz0123456789-_''"

definition sextet :: "nat \<Rightarrow> char" where
  "sextet n = base64url_alphabet ! (n mod 64)"

fun base64url :: "byte list \<Rightarrow> string" where
  "base64url (a # b # c # r) =
     sextet (unat a div 4) # sextet (unat a mod 4 * 16 + unat b div 16)
       # sextet (unat b mod 16 * 4 + unat c div 64) # sextet (unat c mod 64) # base64url r"
| "base64url [a, b] =
     [sextet (unat a div 4), sextet (unat a mod 4 * 16 + unat b div 16),
      sextet (unat b mod 16 * 4)]"
| "base64url [a] = [sextet (unat a div 4), sextet (unat a mod 4 * 16)]"
| "base64url [] = []"

definition uint8arrayToString_base64url :: "uint8array \<Rightarrow> string" where
  "uint8arrayToString_base64url a = base64url (bytes a)"

subsection \<open>Messages\<close>

text \<open>
  A message is a \<^verbatim>\<open>Uint8Array\<close> or a \<^verbatim>\<open>Uint8ArrayList\<close>, a sequence of chunks whose
  \<^verbatim>\<open>subarray()\<close> is one array of all their bytes. \<open>msg_view\<close> is
  \<^verbatim>\<open>msg instanceof Uint8Array ? msg : msg.subarray()\<close>.
\<close>

datatype message =
    MsgUint8Array uint8array
  | MsgUint8ArrayList "uint8array list"

definition msg_view :: "message \<Rightarrow> uint8array" where
  "msg_view msg =
     (case msg of
        MsgUint8Array a \<Rightarrow> a
      | MsgUint8ArrayList chunks \<Rightarrow> Uint8Array_of_buffer (concat (map bytes chunks)))"

subsection \<open>The engine\<close>

record JsonWebKey =
  jwk_crv :: string
  jwk_kty :: string
  jwk_x :: string
  jwk_d :: string
  jwk_ext :: bool
  jwk_key_ops :: "string list"

text \<open>
  The key material handed to \<^verbatim>\<open>importKey\<close>, with its format: a JSON web key for
  \<^verbatim>\<open>'jwk'\<close>, the bytes of a buffer for \<^verbatim>\<open>'raw'\<close>.
\<close>

datatype key_data =
    Jwk JsonWebKey
  | Raw "byte list"

text \<open>
  \<^verbatim>\<open>crypto.get().subtle\<close> is the platform's engine, outside this file: a record of its
  three operations, over any type \<open>'k\<close> of \<^verbatim>\<open>CryptoKey\<close> handles. Each resolves to a
  value or rejects with an error. \<open>importKey\<close> takes the key material, the
  \<^verbatim>\<open>extractable\<close> flag and the usages (the algorithm is always \<^verbatim>\<open>Ed25519\<close>);
  \<open>sign\<close> takes a key and the bytes of the message and resolves to the bytes of an
  \<^verbatim>\<open>ArrayBuffer\<close>; \<open>verify\<close> takes a key, the bytes of the signature and the bytes of
  the message. \<^verbatim>\<open>crypto.get()\<close> itself throws where the platform has no engine: a value of
  \<open>webcrypto\<close> is what it does.
\<close>

record 'k subtle =
  importKey :: "key_data \<Rightarrow> bool \<Rightarrow> string list \<Rightarrow> error + 'k"
  sign :: "'k \<Rightarrow> byte list \<Rightarrow> error + byte list"
  verify :: "'k \<Rightarrow> byte list \<Rightarrow> byte list \<Rightarrow> error + bool"

type_synonym 'k webcrypto = "error + 'k subtle"

text \<open>The calls that reach the engine, in order, with their arguments.\<close>

datatype engine_call =
    ImportKeyCall key_data bool "string list"
  | SignCall "byte list"
  | VerifyCall "byte list" "byte list"

subsection \<open>hashAndSign\<close>

text \<open>
  \<open>hashAndSign\<close> returns a closure over the variable \<^verbatim>\<open>key\<close> (unset at first), the
  web key \<^verbatim>\<open>jwk\<close> and the message: the record \<open>signer\<close> is that closure's environment,
  and \<open>hashAndSign_jwk\<close> is the web key the function builds from its private key.
\<close>

record 'k signer =
  signer_key :: "'k option"
  signer_jwk :: JsonWebKey
  signer_msg :: message

definition hashAndSign_jwk :: "uint8array \<Rightarrow> JsonWebKey" where
  "hashAndSign_jwk privateKey =
     (let privateKeyRaw =
            (if u8_length privateKey = PRIVATE_KEY_BYTE_LENGTH
             then subarray privateKey 0 (Some 32)
             else privateKey)
      in \<lparr>jwk_crv = ''Ed25519'',
          jwk_kty = ''OKP'',
          jwk_x = uint8arrayToString_base64url (subarray privateKey 32 None),
          jwk_d = uint8arrayToString_base64url privateKeyRaw,
          jwk_ext = True,
          jwk_key_ops = [''sign'']\<rparr>)"

definition hashAndSign :: "uint8array \<Rightarrow> message \<Rightarrow> 'k signer" where
  "hashAndSign privateKey msg =
     \<lparr>signer_key = None, signer_jwk = hashAndSign_jwk privateKey, signer_msg = msg\<rparr>"

text \<open>
  One call of the closure run to its end with no other call in between: the result it
  resolves to or the error it rejects with, the closure's environment afterwards and the
  engine calls made, appended to those made before. \<^verbatim>\<open>key ??= await importKey(...)\<close>
  imports only while \<^verbatim>\<open>key\<close> is unset, and assigns only when the import resolves.
\<close>

definition signer_sign ::
  "'k webcrypto \<Rightarrow> 'k signer \<Rightarrow> 'k \<Rightarrow> engine_call list
     \<Rightarrow> (error + uint8array) \<times> 'k signer \<times> engine_call list" where
  "signer_sign crypto_get s key calls =
     (case crypto_get of
        Inl e \<Rightarrow> (Inl e, s, calls)
      | Inr subtle \<Rightarrow>
          (let m = bytes (msg_view (signer_msg s));
               calls' = calls @ [SignCall m]
           in case sign subtle key m of
                Inl e \<Rightarrow> (Inl e, s, calls')
              | Inr buf \<Rightarrow> (Inr (Uint8Array_of_buffer buf), s, calls')))"

definition signer_call ::
  "'k webcrypto \<Rightarrow> 'k signer \<Rightarrow> engine_call list
     \<Rightarrow> (error + uint8array) \<times> 'k signer \<times> engine_call list" where
  "signer_call crypto_get s calls =
     (case signer_key s of
        Some key \<Rightarrow> signer_sign crypto_get s key calls
      | None \<Rightarrow>
          (case crypto_get of
             Inl e \<Rightarrow> (Inl e, s, calls)
           | Inr subtle \<Rightarrow>
               (let calls' = calls @ [ImportKeyCall (Jwk (signer_jwk s)) True [''sign'']]
                in case importKey subtle (Jwk (signer_jwk s)) True [''sign''] of
                     Inl e \<Rightarrow> (Inl e, s, calls')
                   | Inr key \<Rightarrow>
                       signer_sign crypto_get (s\<lparr>signer_key := Some key\<rparr>) key calls')))"

text \<open>
  The closure is an \<^verbatim>\<open>async\<close> function: a call runs until its first \<^verbatim>\<open>await\<close>, is
  suspended there, and later calls may start before it resumes. An invocation in flight
  is at one of four points: not yet started; suspended at \<^verbatim>\<open>await importKey(...)\<close>,
  with what the import settles to; suspended at \<^verbatim>\<open>await sign(...)\<close>, with what the
  signing settles to; settled. \<open>signer_step\<close> runs one invocation from its point to
  the next suspension, on the environment all invocations of the closure share.
  \<^verbatim>\<open>key ??= await importKey(...)\<close> tests \<^verbatim>\<open>key\<close> before it suspends and assigns it,
  whatever it has become, when it resumes.
\<close>

datatype 'k sign_task =
    NotStarted
  | AwaitingImportKey "error + 'k"
  | AwaitingSign "error + byte list"
  | Settled "error + uint8array"

definition signer_step_sign ::
  "'k webcrypto \<Rightarrow> 'k signer \<Rightarrow> 'k \<Rightarrow> engine_call list
     \<Rightarrow> 'k sign_task \<times> 'k signer \<times> engine_call list" where
  "signer_step_sign crypto_get s key calls =
     (case crypto_get of
        Inl e \<Rightarrow> (Settled (Inl e), s, calls)
      | Inr subtle \<Rightarrow>
          (let m = bytes (msg_view (signer_msg s))
           in (AwaitingSign (sign subtle key m), s, calls @ [SignCall m])))"

definition signer_step ::
  "'k webcrypto \<Rightarrow> 'k sign_task \<Rightarrow> 'k signer \<Rightarrow> engine_call list
     \<Rightarrow> 'k sign_task \<times> 'k signer \<times> engine_call list" where
  "signer_step crypto_get t s calls =
     (case t of
        NotStarted \<Rightarrow>
          (case signer_key s of
             Some key \<Rightarrow> signer_step_sign crypto_get s key calls
           | None \<Rightarrow>
               (case crypto_get of
                  Inl e \<Rightarrow> (Settled (Inl e), s, calls)
                | Inr subtle \<Rightarrow>
                    (AwaitingImportKey (importKey subtle (Jwk (signer_jwk s)) True [''sign'']),
                     s, calls @ [ImportKeyCall (Jwk (signer_jwk s)) True [''sign'']])))
      | AwaitingImportKey r \<Rightarrow>
          (case r of
             Inl e \<Rightarrow> (Settled (Inl e), s, calls)
           | Inr key \<Rightarrow> signer_step_sign crypto_get (s\<lparr>signer_key := Some key\<rparr>) key calls)
      | AwaitingSign r \<Rightarrow>
          (case r of
             Inl e \<Rightarrow> (Settled (Inl e), s, calls)
           | Inr buf \<Rightarrow> (Settled (Inr (Uint8Array_of_buffer buf)), s, calls))
      | Settled r \<Rightarrow> (Settled r, s, calls))"

text \<open>
  The invocations of one closure, the environment they share and the engine calls made
  so far. A schedule says which invocation runs next, and against which engine; an index
  that names no invocation does nothing.
\<close>

type_synonym 'k signing = "'k sign_task list \<times> 'k signer \<times> engine_call list"

fun run_schedule :: "(nat \<times> 'k webcrypto) list \<Rightarrow> 'k signing \<Rightarrow> 'k signing" where
  "run_schedule [] st = st"
| "run_schedule ((i, crypto_get) # rest) (tasks, s, calls) =
     (if i < length tasks
      then (case signer_step crypto_get (tasks ! i) s calls of
              (t', s', calls') \<Rightarrow> run_schedule rest (tasks[i := t'], s', calls'))
      else run_schedule rest (tasks, s, calls))"



subsection \<open>hashAndVerify\<close>

record 'k verifier =
  verifier_key :: "'k option"
  verifier_publicKey :: uint8array
  verifier_sig :: uint8array
  verifier_msg :: message

definition hashAndVerify :: "uint8array \<Rightarrow> uint8array \<Rightarrow> message \<Rightarrow> 'k verifier" where
  "hashAndVerify publicKey sig msg =
     \<lparr>verifier_key = None, verifier_publicKey = publicKey, verifier_sig = sig,
      verifier_msg = msg\<rparr>"

definition verifier_verify ::
  "'k webcrypto \<Rightarrow> 'k verifier \<Rightarrow> 'k \<Rightarrow> engine_call list
     \<Rightarrow> (error + bool) \<times> 'k verifier \<times> engine_call list" where
  "verifier_verify crypto_get v key calls =
     (case crypto_get of
        Inl e \<Rightarrow> (Inl e, v, calls)
      | Inr subtle \<Rightarrow>
          (let sg = bytes (verifier_sig v);
               m = bytes (msg_view (verifier_msg v));
               calls' = calls @ [VerifyCall sg m]
           in case verify subtle key sg m of
                Inl e \<Rightarrow> (Inl e, v, calls')
              | Inr isValid \<Rightarrow> (Inr isValid, v, calls')))"

definition verifier_call ::
  "'k webcrypto \<Rightarrow> 'k verifier \<Rightarrow> engine_call list
     \<Rightarrow> (error + bool) \<times> 'k verifier \<times> engine_call list" where
  "verifier_call crypto_get v calls =
     (case verifier_key v of
        Some key \<Rightarrow> verifier_verify crypto_get v key calls
      | None \<Rightarrow>
          (case crypto_get of
             Inl e \<Rightarrow> (Inl e, v, calls)
           | Inr subtle \<Rightarrow>
               (let material = Raw (buffer (verifier_publicKey v));
                    calls' = calls @ [ImportKeyCall material False [''verify'']]
                in case importKey subtle material False [''verify''] of
                     Inl e \<Rightarrow> (Inl e, v, calls')
                   | Inr key \<Rightarrow>
                       verifier_verify crypto_get (v\<lparr>verifier_key := Some key\<rparr>) key calls')))"

subsection \<open>What is asked of the curve library and of the engine\<close>

text \<open>
  An engine is a backend for the curve \<open>getPublicKey\<close> when, for every seed of 32 bytes
  and every message, it accepts the web key of that seed (\<^verbatim>\<open>d\<close> the seed, \<^verbatim>\<open>x\<close> the
  public key derived from it, both in base64url), signs with it, accepts the raw public
  key, and finds the signature valid.
\<close>

definition seed_jwk :: "curve \<Rightarrow> byte list \<Rightarrow> JsonWebKey" where
  "seed_jwk getPublicKey seed =
     \<lparr>jwk_crv = ''Ed25519'', jwk_kty = ''OKP'',
      jwk_x = base64url (bytes (getPublicKey seed)), jwk_d = base64url seed,
      jwk_ext = True, jwk_key_ops = [''sign'']\<rparr>"

definition ed25519_backend :: "curve \<Rightarrow> 'k subtle \<Rightarrow> bool" where
  "ed25519_backend getPublicKey subtle \<longleftrightarrow>
     (\<forall>seed m. length seed = 32 \<longrightarrow>
        (\<exists>key sg vkey.
           importKey subtle (Jwk (seed_jwk getPublicKey seed)) True [''sign''] = Inr key
           \<and> sign subtle key m = Inr sg
           \<and> importKey subtle (Raw (bytes (getPublicKey seed))) False [''verify''] = Inr vkey
           \<and> verify subtle vkey sg m = Inr True))"

subsection \<open>A stand-in curve and engine\<close>

text \<open>
  Concrete collaborators on which the statements below are instantiated. The curve maps
  a private key to an array of the same length on a buffer of its own. The engine keeps
  to RFC 8037 on the shape of a web key: \<^verbatim>\<open>x\<close> and \<^verbatim>\<open>d\<close> must each be the 43
  characters that encode 32 bytes, and a raw public key must be 32 bytes.
\<close>

definition stub_getPublicKey :: curve where
  "stub_getPublicKey sk = Uint8Array_of_buffer (map (\<lambda>b. b + 1) sk)"

datatype stub_key =
    StubPrivateKey string string
  | StubPublicKey "byte list"

definition byte_of_char :: "char \<Rightarrow> byte" where
  "byte_of_char c = of_nat (of_char c)"

definition stub_importKey :: "key_data \<Rightarrow> bool \<Rightarrow> string list \<Rightarrow> error + stub_key" where
  "stub_importKey material extractable usages =
     (case material of
        Jwk j \<Rightarrow>
          if length (jwk_x j) = 43 \<and> length (jwk_d j) = 43
          then Inr (StubPrivateKey (jwk_x j) (jwk_d j))
          else Inl (EngineError ''DataError'')
      | Raw m \<Rightarrow>
          if length m = 32 then Inr (StubPublicKey m) else Inl (EngineError ''DataError''))"

definition stub_sign :: "stub_key \<Rightarrow> byte list \<Rightarrow> error + byte list" where
  "stub_sign k m =
     (case k of
        StubPrivateKey x d \<Rightarrow> Inr (map byte_of_char x @ m)
      | StubPublicKey p \<Rightarrow> Inl (EngineError ''InvalidAccessError''))"

definition stub_verify :: "stub_key \<Rightarrow> byte list \<Rightarrow> byte list \<Rightarrow> error + bool" where
  "stub_verify k sg m =
     (case k of
        StubPublicKey p \<Rightarrow> Inr (sg = map byte_of_char (base64url p) @ m)
      | StubPrivateKey x d \<Rightarrow> Inl (EngineError ''InvalidAccessError''))"

definition stub_subtle :: "stub_key subtle" where
  "stub_subtle = \<lparr>importKey = stub_importKey, sign = stub_sign, verify = stub_verify\<rparr>"


text \<open>An engine that imports keys and rejects every verification.\<close>

definition verify_rejecting_subtle :: "stub_key subtle" where
  "verify_rejecting_subtle =
     \<lparr>importKey = stub_importKey, sign = stub_sign,
      verify = (\<lambda>key sg m. Inl (EngineError ''OperationError''))\<rparr>"

definition seed_01 :: uint8array where
  "seed_01 = Uint8Array_of_buffer (replicate 32 1)"

definition msg_abc :: message where
  "msg_abc = MsgUint8ArrayList [Uint8Array_of_buffer [97], Uint8Array_of_buffer [98, 99]]"

section \<open>Properties\<close>

subsection \<open>concatKeys\<close>

lemma u8_length_u8_set: "u8_length (u8_set a i v) = u8_length a"
  by (simp add: u8_set_def u8_length_def)

lemma before_u8_set: "before (u8_set a i v) = before a"
  by (simp add: u8_set_def)

lemma after_u8_set: "after (u8_set a i v) = after a"
  by (simp add: u8_set_def)

lemma window_u8_set:
  "window (u8_set a i v) = (window a)[i := ToUint8 v]"
  by (simp add: u8_set_def u8_length_def list_update_beyond)

lemma concatKeys_loop_frame:
  "before (concatKeys_loop i r p a) = before a \<and> after (concatKeys_loop i r p a) = after a
   \<and> u8_length (concatKeys_loop i r p a) = u8_length a"
proof (induction i r p a rule: concatKeys_loop.induct)
  case (1 i r p a)
  show ?case
  proof (cases "i < KEYS_BYTE_LENGTH")
    case True
    with "1" show ?thesis
      by (simp add: u8_length_u8_set before_u8_set after_u8_set)
  next
    case False
    then show ?thesis by simp
  qed
qed

lemma concatKeys_loop_nth:
  assumes "u8_length a = 64" and "j < 64"
  shows "window (concatKeys_loop i r p a) ! j =
           (if i \<le> j \<and> j < 32 then ToUint8 (u8_get r j)
            else if 32 + i \<le> j then ToUint8 (u8_get p (j - 32))
            else window a ! j)"
  using assms
proof (induction i r p a rule: concatKeys_loop.induct)
  case (1 i r p a)
  show ?case
  proof (cases "i < KEYS_BYTE_LENGTH")
    case True
    let ?a' = "u8_set (u8_set a i (u8_get r i)) (KEYS_BYTE_LENGTH + i) (u8_get p i)"
    have len: "u8_length ?a' = 64"
      using "1.prems" by (simp add: u8_length_u8_set)
    have step: "window (concatKeys_loop i r p a) ! j = window (concatKeys_loop (i + 1) r p ?a') ! j"
      using True by simp
    have ih: "window (concatKeys_loop (i + 1) r p ?a') ! j =
           (if i + 1 \<le> j \<and> j < 32 then ToUint8 (u8_get r j)
            else if 32 + (i + 1) \<le> j then ToUint8 (u8_get p (j - 32))
            else window ?a' ! j)"
      using "1.IH" [OF True len "1.prems"(2)] .
    have la: "length (window a) = 64"
      using "1.prems"(1) by (simp add: u8_length_def)
    have upd: "window ?a' ! j =
           (if j = 32 + i then ToUint8 (u8_get p i)
            else if j = i then ToUint8 (u8_get r i) else window a ! j)"
      using la "1.prems"(2) True
      by (simp add: window_u8_set KEYS_BYTE_LENGTH_def nth_list_update)
    show ?thesis
    proof (cases "j = 32 + i")
      case True
      then have "j - 32 = i" by simp
      with True show ?thesis
        unfolding step ih upd by simp
    next
      case False
      with True "1.prems"(2) show ?thesis
        unfolding step ih upd by (auto simp: KEYS_BYTE_LENGTH_def)
    qed
  next
    case False
    then show ?thesis
      using "1.prems" by (auto simp: KEYS_BYTE_LENGTH_def)
  qed
qed

lemma ToUint8_u8_get_first32:
  "j < 32 \<Longrightarrow> ToUint8 (u8_get a j) = first32 (bytes a) ! j"
  by (simp add: u8_get_def ToUint8_def first32_def bytes_def u8_length_def nth_append)

lemma length_first32: "length (first32 xs) = 32"
  by (simp add: first32_def)

lemma window_concatKeys:
  "window (concatKeys r p) = first32 (bytes r) @ first32 (bytes p)"
proof (rule nth_equalityI)
  have len: "u8_length (new_Uint8Array PRIVATE_KEY_BYTE_LENGTH) = 64"
    by (simp add: new_Uint8Array_def PRIVATE_KEY_BYTE_LENGTH_def u8_length_def)
  have "u8_length (concatKeys r p) = 64"
    using concatKeys_loop_frame [of 0 r p "new_Uint8Array PRIVATE_KEY_BYTE_LENGTH"] len
    by (simp add: concatKeys_def)
  then show l: "length (window (concatKeys r p)) = length (first32 (bytes r) @ first32 (bytes p))"
    by (simp add: u8_length_def length_first32)
  fix j
  assume "j < length (window (concatKeys r p))"
  with l have j: "j < 64"
    by (simp add: length_first32)
  have "window (concatKeys r p) ! j =
          (if j < 32 then ToUint8 (u8_get r j) else ToUint8 (u8_get p (j - 32)))"
    using concatKeys_loop_nth [OF len j, of 0 r p] by (simp add: concatKeys_def)
  also have "\<dots> = (first32 (bytes r) @ first32 (bytes p)) ! j"
    using j by (simp add: nth_append length_first32 ToUint8_u8_get_first32)
  finally show "window (concatKeys r p) ! j = (first32 (bytes r) @ first32 (bytes p)) ! j" .
qed

lemma concatKeys_fresh:
  "before (concatKeys r p) = [] \<and> after (concatKeys r p) = []"
  using concatKeys_loop_frame [of 0 r p "new_Uint8Array PRIVATE_KEY_BYTE_LENGTH"]
  by (simp add: concatKeys_def new_Uint8Array_def)

lemma bytes_concatKeys:
  "bytes (concatKeys r p) = first32 (bytes r) @ first32 (bytes p)"
  by (simp add: bytes_def window_concatKeys)

text \<open>
  C10. \<open>concatKeys\<close> returns, for arrays of any lengths, an array of 64 bytes that shows
  the whole of a buffer of its own: its bytes 0 to 31 are the first 32 bytes of the first
  argument and its bytes 32 to 63 the first 32 bytes of the second, an argument longer
  than 32 bytes being cut and the positions past the end of a shorter one holding 0.
\<close>

theorem concatKeys_total_layout:
  "u8_length (concatKeys r p) = 64
   \<and> spans_buffer (concatKeys r p)
   \<and> length (buffer (concatKeys r p)) = 64
   \<and> take 32 (bytes (concatKeys r p)) = take 32 (bytes r) @ replicate (32 - length (bytes r)) 0
   \<and> drop 32 (bytes (concatKeys r p)) = take 32 (bytes p) @ replicate (32 - length (bytes p)) 0"
proof -
  have w: "window (concatKeys r p) = first32 (bytes r) @ first32 (bytes p)"
    by (rule window_concatKeys)
  have f: "before (concatKeys r p) = []" "after (concatKeys r p) = []"
    using concatKeys_fresh [of r p] by simp_all
  show ?thesis
    by (simp add: u8_length_def spans_buffer_def byteOffset_def buffer_def bytes_def w f
        length_first32) (simp add: first32_def)
qed

subsection \<open>Key generation\<close>

lemma concatKeys_eq:
  "concatKeys r p =
     \<lparr>before = [], window = first32 (bytes r) @ first32 (bytes p), after = []\<rparr>"
  by (rule uint8array.equality) (simp_all add: concatKeys_fresh window_concatKeys)

lemma generateKeyFromSeed_Inr:
  assumes "generateKeyFromSeed gp (SeedUint8Array s) = Inr kp"
  shows "u8_length s = 32 \<and> kp = generateKey gp s"
  using assms
  by (auto simp: generateKeyFromSeed_def generateKey_def seed_length_def
      instanceof_Uint8Array_def KEYS_BYTE_LENGTH_def Let_def split: if_splits)

lemma generateKey_layout:
  assumes "u8_length rnd = 32" and "u8_length (gp (bytes rnd)) = 32"
  shows "bytes (kp_privateKey (generateKey gp rnd)) = bytes rnd @ bytes (gp (bytes rnd))"
    and "kp_publicKey (generateKey gp rnd) = gp (bytes rnd)"
  using assms
  by (simp_all add: generateKey_def Let_def window_concatKeys first32_def u8_length_def bytes_def)

lemma stub_getPublicKey_fresh:
  "u8_length (stub_getPublicKey sk) = length sk" "spans_buffer (stub_getPublicKey sk)"
  "bytes (stub_getPublicKey sk) = map (\<lambda>b. b + 1) sk"
  by (simp_all add: stub_getPublicKey_def Uint8Array_of_buffer_def u8_length_def
      spans_buffer_def byteOffset_def buffer_def bytes_def)

lemma seed_01_simps: "u8_length seed_01 = 32" "bytes seed_01 = replicate 32 1"
  by (simp_all add: seed_01_def Uint8Array_of_buffer_def u8_length_def bytes_def)

lemma generateKeyFromSeed_seed_01:
  "generateKeyFromSeed stub_getPublicKey (SeedUint8Array seed_01)
     = Inr (generateKey stub_getPublicKey seed_01)"
  by (simp add: generateKeyFromSeed_def generateKey_def seed_length_def
      instanceof_Uint8Array_def KEYS_BYTE_LENGTH_def seed_01_simps Let_def)

text \<open>
  C1. Let \<open>kp\<close> be the pair returned by \<open>generateKey\<close>, on a random private key of 32
  bytes, or by \<open>generateKeyFromSeed\<close>, and let \<open>seed\<close> be the bytes of that private key
  or seed. Where the curve library returns a public key of 32 bytes for it, the private
  key of \<open>kp\<close> has 64 bytes, the first 32 are the seed, the last 32 are the public key
  derived from the seed, and they are the bytes of the public key of \<open>kp\<close>.
\<close>

theorem generated_privateKey_layout:
  assumes gen: "(u8_length rnd = 32 \<and> bytes rnd = seed \<and> generateKey getPublicKey rnd = kp)
      \<or> (generateKeyFromSeed getPublicKey (SeedUint8Array s) = Inr kp \<and> bytes s = seed)"
    and curve: "u8_length (getPublicKey seed) = 32"
  shows "u8_length (kp_privateKey kp) = 64
     \<and> take 32 (bytes (kp_privateKey kp)) = seed
     \<and> drop 32 (bytes (kp_privateKey kp)) = bytes (getPublicKey seed)
     \<and> drop 32 (bytes (kp_privateKey kp)) = bytes (kp_publicKey kp)"
proof -
  from gen obtain r where r: "u8_length r = 32" "bytes r = seed" "kp = generateKey getPublicKey r"
    using generateKeyFromSeed_Inr by blast
  have len: "length seed = 32"
    using r by (simp add: u8_length_def bytes_def)
  have b: "bytes (kp_privateKey kp) = seed @ bytes (getPublicKey seed)"
    using generateKey_layout(1) [of r getPublicKey] r curve by simp
  have p: "kp_publicKey kp = getPublicKey seed"
    using generateKey_layout(2) [of r getPublicKey] r curve by simp
  have l: "length (bytes (getPublicKey seed)) = 32"
    using curve by (simp add: u8_length_def bytes_def)
  show ?thesis
    using len b p l by (simp add: u8_length_def bytes_def)
qed

theorem generated_privateKey_layout_witness:
  "generateKeyFromSeed stub_getPublicKey (SeedUint8Array seed_01)
     = Inr (generateKey stub_getPublicKey seed_01)
   \<and> u8_length (stub_getPublicKey (bytes seed_01)) = 32
   \<and> u8_length (kp_privateKey (generateKey stub_getPublicKey seed_01)) = 64
   \<and> take 32 (bytes (kp_privateKey (generateKey stub_getPublicKey seed_01))) = replicate 32 1
   \<and> drop 32 (bytes (kp_privateKey (generateKey stub_getPublicKey seed_01))) = replicate 32 2"
proof -
  note g = generateKeyFromSeed_seed_01
  have c: "u8_length (stub_getPublicKey (bytes seed_01)) = 32"
    by (simp add: stub_getPublicKey_fresh seed_01_simps)
  show ?thesis
    using generated_privateKey_layout [of seed_01 "bytes seed_01" stub_getPublicKey
        "generateKey stub_getPublicKey seed_01" seed_01, OF _ c] g c
    by (simp add: seed_01_simps stub_getPublicKey_fresh)
qed

text \<open>
  C4. \<open>generateKeyFromSeed\<close> is a function of the bytes of its seed and of the curve
  alone; no random private key is among its arguments. Two seeds of 32 bytes with the
  same bytes, whatever buffers they lie on, give the same pair: the same public key and
  the same private key.
\<close>

theorem generateKeyFromSeed_deterministic:
  assumes "u8_length s1 = 32" and "bytes s1 = bytes s2"
  shows "\<exists>kp. generateKeyFromSeed getPublicKey (SeedUint8Array s1) = Inr kp
           \<and> generateKeyFromSeed getPublicKey (SeedUint8Array s2) = Inr kp"
  using assms
  by (simp add: generateKeyFromSeed_def seed_length_def instanceof_Uint8Array_def
      KEYS_BYTE_LENGTH_def Let_def concatKeys_eq u8_length_def bytes_def)

theorem generateKeyFromSeed_deterministic_witness:
  "u8_length seed_01 = 32
   \<and> bytes seed_01 = bytes \<lparr>before = [7], window = replicate 32 1, after = [9]\<rparr>
   \<and> (\<exists>kp. generateKeyFromSeed stub_getPublicKey (SeedUint8Array seed_01) = Inr kp
          \<and> generateKeyFromSeed stub_getPublicKey
                (SeedUint8Array \<lparr>before = [7], window = replicate 32 1, after = [9]\<rparr>) = Inr kp)"
proof -
  have l: "u8_length seed_01 = 32"
    by (simp add: seed_01_simps)
  have b: "bytes seed_01 = bytes \<lparr>before = [7], window = replicate 32 1, after = [9]\<rparr>"
    by (simp add: seed_01_simps) (simp add: bytes_def)
  show ?thesis
    using generateKeyFromSeed_deterministic [OF l b, of stub_getPublicKey] l b by simp
qed

text \<open>
  C5. A seed whose \<^verbatim>\<open>length\<close> is not 32 is refused with \<open>InvalidSeedLength\<close>, whatever
  the curve library is: it is not consulted, and no pair is returned.
\<close>

theorem generateKeyFromSeed_rejects_length:
  assumes "seed_length seed = Inr l" and "l \<noteq> Some 32"
  shows "generateKeyFromSeed getPublicKey seed = Inl InvalidSeedLength"
  using assms by (simp add: generateKeyFromSeed_def KEYS_BYTE_LENGTH_def)

theorem generateKeyFromSeed_rejects_length_witness:
  "seed_length (SeedUint8Array (new_Uint8Array 0)) = Inr (Some 0) \<and> Some 0 \<noteq> Some (32::nat)
   \<and> generateKeyFromSeed stub_getPublicKey (SeedUint8Array (new_Uint8Array 0))
       = Inl InvalidSeedLength
   \<and> generateKeyFromSeed stub_getPublicKey (SeedUint8Array (new_Uint8Array 16))
       = Inl InvalidSeedLength
   \<and> generateKeyFromSeed stub_getPublicKey (SeedUint8Array (new_Uint8Array 31))
       = Inl InvalidSeedLength
   \<and> generateKeyFromSeed stub_getPublicKey (SeedUint8Array (new_Uint8Array 33))
       = Inl InvalidSeedLength
   \<and> generateKeyFromSeed stub_getPublicKey (SeedUint8Array (new_Uint8Array 64))
       = Inl InvalidSeedLength"
proof -
  have len: "seed_length (SeedUint8Array (new_Uint8Array n)) = Inr (Some n)" for n
    by (simp add: seed_length_def new_Uint8Array_def u8_length_def)
  show ?thesis
    using generateKeyFromSeed_rejects_length [OF len [of 0], of stub_getPublicKey]
      generateKeyFromSeed_rejects_length [OF len [of 16], of stub_getPublicKey]
      generateKeyFromSeed_rejects_length [OF len [of 31], of stub_getPublicKey]
      generateKeyFromSeed_rejects_length [OF len [of 33], of stub_getPublicKey]
      generateKeyFromSeed_rejects_length [OF len [of 64], of stub_getPublicKey]
      len [of 0]
    by simp
qed

text \<open>
  C6, as stated: every seed that is not a \<^verbatim>\<open>Uint8Array\<close> is refused with
  \<open>InvalidSeedType\<close>, whatever its length. The length is tested first: a value that is
  not a \<^verbatim>\<open>Uint8Array\<close> and has length 16 is refused with \<open>InvalidSeedLength\<close>.
\<close>

theorem generateKeyFromSeed_type_error_counterexample:
  "generateKeyFromSeed stub_getPublicKey (SeedOther (Some 16)) = Inl InvalidSeedLength
   \<and> generateKeyFromSeed stub_getPublicKey (SeedOther (Some 16)) \<noteq> Inl InvalidSeedType"
  by (simp add: generateKeyFromSeed_def seed_length_def KEYS_BYTE_LENGTH_def)

text \<open>
  C6, amended: a seed that is not a \<^verbatim>\<open>Uint8Array\<close> is refused with \<open>InvalidSeedType\<close>
  when its \<^verbatim>\<open>length\<close> is 32, and with \<open>InvalidSeedLength\<close> when it is anything else.
\<close>

theorem generateKeyFromSeed_type_error:
  "generateKeyFromSeed getPublicKey (SeedOther l)
     = Inl (if l = Some 32 then InvalidSeedType else InvalidSeedLength)"
  by (simp add: generateKeyFromSeed_def seed_length_def instanceof_Uint8Array_def
      KEYS_BYTE_LENGTH_def)

subsection \<open>Signing and verifying\<close>

lemma bytes_subarray:
  "bytes (subarray a b (Some e)) = take (max (min b (u8_length a)) (min e (u8_length a)) - min b (u8_length a)) (drop (min b (u8_length a)) (bytes a))"
  "bytes (subarray a b None) = drop b (bytes a)"
  by (simp_all add: subarray_def Let_def bytes_def u8_length_def min_def max_def)

lemma spans_buffer_iff: "spans_buffer a \<longleftrightarrow> buffer a = bytes a"
  by (auto simp: spans_buffer_def byteOffset_def u8_length_def buffer_def bytes_def
      dest: arg_cong [where f = length])

lemma hashAndSign_jwk_full:
  assumes "length seed = 32" and "length pub = 32" and "bytes pk = seed @ pub"
  shows "hashAndSign_jwk pk =
     \<lparr>jwk_crv = ''Ed25519'', jwk_kty = ''OKP'', jwk_x = base64url pub, jwk_d = base64url seed,
      jwk_ext = True, jwk_key_ops = [''sign'']\<rparr>"
proof -
  have l: "u8_length pk = 64"
    using assms by (simp add: u8_length_def bytes_def)
  show ?thesis
    using assms l
    by (simp add: hashAndSign_jwk_def Let_def PRIVATE_KEY_BYTE_LENGTH_def
        uint8arrayToString_base64url_def bytes_subarray)
qed

lemma hashAndSign_simps:
  "signer_key (hashAndSign pk msg) = None" "signer_msg (hashAndSign pk msg) = msg"
  "signer_jwk (hashAndSign pk msg) = hashAndSign_jwk pk"
  by (simp_all add: hashAndSign_def)

text \<open>
  C2. Let \<open>kp\<close> be a pair returned by \<open>generateKey\<close> or \<open>generateKeyFromSeed\<close>, the curve
  library returning for its seed an array of 32 bytes on a buffer of its own, and let the
  engine be present and a backend for that curve. Then for every message the signer made
  by \<open>hashAndSign\<close> from the private key resolves to a signature, and the verifier made
  by \<open>hashAndVerify\<close> from the public key, that signature and the message resolves to
  \<open>True\<close>.
\<close>

theorem sign_verify_roundtrip:
  assumes gen: "(u8_length rnd = 32 \<and> bytes rnd = seed \<and> generateKey getPublicKey rnd = kp)
      \<or> (generateKeyFromSeed getPublicKey (SeedUint8Array s) = Inr kp \<and> bytes s = seed)"
    and curve: "u8_length (getPublicKey seed) = 32 \<and> spans_buffer (getPublicKey seed)"
    and backend: "ed25519_backend getPublicKey subtle"
  shows "\<exists>sg. fst (signer_call (Inr subtle) (hashAndSign (kp_privateKey kp) msg) calls) = Inr sg
           \<and> fst (verifier_call (Inr subtle) (hashAndVerify (kp_publicKey kp) sg msg) calls')
               = Inr True"
proof -
  from gen obtain r where r: "u8_length r = 32" "bytes r = seed" "kp = generateKey getPublicKey r"
    using generateKeyFromSeed_Inr by blast
  have len: "length seed = 32"
    using r by (simp add: u8_length_def bytes_def)
  have b: "bytes (kp_privateKey kp) = seed @ bytes (getPublicKey seed)"
    using generateKey_layout(1) [of r getPublicKey] r curve by simp
  have p: "kp_publicKey kp = getPublicKey seed"
    using generateKey_layout(2) [of r getPublicKey] r curve by simp
  have l: "length (bytes (getPublicKey seed)) = 32"
    using curve by (simp add: u8_length_def bytes_def)
  have jwk: "hashAndSign_jwk (kp_privateKey kp) = seed_jwk getPublicKey seed"
    using hashAndSign_jwk_full [OF len l b] by (simp add: seed_jwk_def)
  have raw: "buffer (kp_publicKey kp) = bytes (getPublicKey seed)"
    using curve p by (simp add: spans_buffer_iff)
  let ?m = "bytes (msg_view msg)"
  from backend len obtain key sg vkey where
    e: "importKey subtle (Jwk (seed_jwk getPublicKey seed)) True [''sign''] = Inr key"
      "sign subtle key ?m = Inr sg"
      "importKey subtle (Raw (bytes (getPublicKey seed))) False [''verify''] = Inr vkey"
      "verify subtle vkey sg ?m = Inr True"
    unfolding ed25519_backend_def by blast
  have s: "fst (signer_call (Inr subtle) (hashAndSign (kp_privateKey kp) msg) calls)
        = Inr (Uint8Array_of_buffer sg)"
    using e(1,2)
    by (simp add: signer_call_def signer_sign_def hashAndSign_simps Let_def jwk)
  have v: "fst (verifier_call (Inr subtle)
        (hashAndVerify (kp_publicKey kp) (Uint8Array_of_buffer sg) msg) calls') = Inr True"
    using e(3,4) raw
    by (simp add: verifier_call_def verifier_verify_def hashAndVerify_def Let_def
        Uint8Array_of_buffer_def bytes_def)
  from s v show ?thesis by blast
qed

lemma length_base64url: "length (base64url xs) = (4 * length xs + 2) div 3"
  by (induction xs rule: base64url.induct) simp_all

lemma stub_backend: "ed25519_backend stub_getPublicKey stub_subtle"
  unfolding ed25519_backend_def
  by (simp add: stub_subtle_def stub_importKey_def stub_sign_def stub_verify_def seed_jwk_def
      length_base64url stub_getPublicKey_fresh)

theorem sign_verify_roundtrip_witness:
  "generateKeyFromSeed stub_getPublicKey (SeedUint8Array seed_01)
      = Inr (generateKey stub_getPublicKey seed_01)
   \<and> u8_length (stub_getPublicKey (bytes seed_01)) = 32
   \<and> spans_buffer (stub_getPublicKey (bytes seed_01))
   \<and> ed25519_backend stub_getPublicKey stub_subtle
   \<and> (\<exists>sg. fst (signer_call (Inr stub_subtle)
                 (hashAndSign (kp_privateKey (generateKey stub_getPublicKey seed_01)) msg_abc) [])
              = Inr sg
          \<and> fst (verifier_call (Inr stub_subtle)
                 (hashAndVerify (kp_publicKey (generateKey stub_getPublicKey seed_01)) sg msg_abc) [])
              = Inr True)"
proof -
  note g = generateKeyFromSeed_seed_01
  have c: "u8_length (stub_getPublicKey (bytes seed_01)) = 32
      \<and> spans_buffer (stub_getPublicKey (bytes seed_01))"
    by (simp add: stub_getPublicKey_fresh seed_01_simps)
  have h: "(u8_length seed_01 = 32 \<and> bytes seed_01 = bytes seed_01
        \<and> generateKey stub_getPublicKey seed_01 = generateKey stub_getPublicKey seed_01)
      \<or> (generateKeyFromSeed stub_getPublicKey (SeedUint8Array seed_01)
            = Inr (generateKey stub_getPublicKey seed_01) \<and> bytes seed_01 = bytes seed_01)"
    using g by simp
  show ?thesis
    using sign_verify_roundtrip [OF h c stub_backend, of msg_abc "[]" "[]"] g c stub_backend
    by simp
qed

lemma bytes_msg_abc: "bytes (msg_view msg_abc) = [97, 98, 99]"
  by (simp add: msg_abc_def msg_view_def Uint8Array_of_buffer_def bytes_def)

lemma kp_01_jwk:
  "hashAndSign_jwk (kp_privateKey (generateKey stub_getPublicKey seed_01))
     = seed_jwk stub_getPublicKey (replicate 32 1)"
proof -
  have c: "u8_length (stub_getPublicKey (bytes seed_01)) = 32"
    by (simp add: stub_getPublicKey_fresh seed_01_simps)
  have b: "bytes (kp_privateKey (generateKey stub_getPublicKey seed_01))
      = replicate 32 1 @ bytes (stub_getPublicKey (replicate 32 1))"
    using generateKey_layout(1) [of seed_01 stub_getPublicKey, OF seed_01_simps(1) c]
    by (simp add: seed_01_simps)
  show ?thesis
    using hashAndSign_jwk_full [OF _ _ b] by (simp add: seed_jwk_def stub_getPublicKey_fresh)
qed

lemma stub_importKey_seed_jwk:
  "length seed = 32 \<Longrightarrow>
   importKey stub_subtle (Jwk (seed_jwk stub_getPublicKey seed)) True [''sign'']
     = Inr (StubPrivateKey (base64url (map (\<lambda>b. b + 1) seed)) (base64url seed))"
  by (simp add: stub_subtle_def stub_importKey_def seed_jwk_def length_base64url
      stub_getPublicKey_fresh)

lemma stub_importKey_raw:
  "importKey stub_subtle (Raw m) False [''verify'']
     = (if length m = 32 then Inr (StubPublicKey m) else Inl (EngineError ''DataError''))"
  by (simp add: stub_subtle_def stub_importKey_def)

lemma stub_verify_public:
  "verify stub_subtle (StubPublicKey p) sg m = Inr (sg = map byte_of_char (base64url p) @ m)"
  by (simp add: stub_subtle_def stub_verify_def)

lemma hashAndSign_jwk_seed:
  assumes "u8_length pk = 32"
  shows "hashAndSign_jwk pk =
     \<lparr>jwk_crv = ''Ed25519'', jwk_kty = ''OKP'', jwk_x = [], jwk_d = base64url (bytes pk),
      jwk_ext = True, jwk_key_ops = [''sign'']\<rparr>"
  using assms
  by (simp add: hashAndSign_jwk_def Let_def PRIVATE_KEY_BYTE_LENGTH_def
      uint8arrayToString_base64url_def bytes_subarray) (simp add: bytes_def u8_length_def)

lemma verifier_call_fresh:
  "verifier_call (Inr subtle) (hashAndVerify pub sg msg) calls =
     (case importKey subtle (Raw (buffer pub)) False [''verify''] of
        Inl e \<Rightarrow>
          (Inl e, hashAndVerify pub sg msg,
           calls @ [ImportKeyCall (Raw (buffer pub)) False [''verify'']])
      | Inr key \<Rightarrow>
          (verify subtle key (bytes sg) (bytes (msg_view msg)),
           (hashAndVerify pub sg msg)\<lparr>verifier_key := Some key\<rparr>,
           calls @ [ImportKeyCall (Raw (buffer pub)) False [''verify''],
                    VerifyCall (bytes sg) (bytes (msg_view msg))]))"
  by (simp add: verifier_call_def verifier_verify_def hashAndVerify_def Let_def
      split: sum.splits)

text \<open>
  C3. For the seed of 32 bytes \<open>01 01 \<dots> 01\<close> and the private key of 64 bytes generated
  from it, \<open>hashAndSign\<close> builds web keys with the same \<^verbatim>\<open>d\<close> but not the same
  \<^verbatim>\<open>x\<close>: for the bare seed \<^verbatim>\<open>privateKey.subarray(32)\<close> is empty and \<^verbatim>\<open>x\<close> is the
  empty string, for the full key \<^verbatim>\<open>x\<close> encodes the public key. On the stand-in engine,
  which asks of \<^verbatim>\<open>x\<close> that it encode 32 bytes, the signer of the bare seed rejects with
  the engine's error and the signer of the full key resolves to a signature.
\<close>

theorem hashAndSign_bare_seed_differs:
  "jwk_d (hashAndSign_jwk seed_01)
     = jwk_d (hashAndSign_jwk (kp_privateKey (generateKey stub_getPublicKey seed_01)))
   \<and> jwk_x (hashAndSign_jwk seed_01) = []
   \<and> jwk_x (hashAndSign_jwk (kp_privateKey (generateKey stub_getPublicKey seed_01)))
     = base64url (replicate 32 2)
   \<and> fst (signer_call (Inr stub_subtle) (hashAndSign seed_01 msg_abc) [])
     = Inl (EngineError ''DataError'')
   \<and> fst (signer_call (Inr stub_subtle)
        (hashAndSign (kp_privateKey (generateKey stub_getPublicKey seed_01)) msg_abc) [])
     = Inr (Uint8Array_of_buffer (map byte_of_char (base64url (replicate 32 2)) @ [97, 98, 99]))"
proof -
  let ?pk = "kp_privateKey (generateKey stub_getPublicKey seed_01)"
  have bare: "hashAndSign_jwk seed_01 =
     \<lparr>jwk_crv = ''Ed25519'', jwk_kty = ''OKP'', jwk_x = [], jwk_d = base64url (replicate 32 1),
      jwk_ext = True, jwk_key_ops = [''sign'']\<rparr>"
    using hashAndSign_jwk_seed [OF seed_01_simps(1)] by (simp add: seed_01_simps)
  have full: "hashAndSign_jwk ?pk = seed_jwk stub_getPublicKey (replicate 32 1)"
    by (rule kp_01_jwk)
  have 1: "jwk_d (hashAndSign_jwk seed_01) = jwk_d (hashAndSign_jwk ?pk)"
    by (simp add: bare full seed_jwk_def)
  have 2: "jwk_x (hashAndSign_jwk seed_01) = []"
    by (simp add: bare)
  have 3: "jwk_x (hashAndSign_jwk ?pk) = base64url (replicate 32 2)"
    by (simp add: full seed_jwk_def stub_getPublicKey_fresh)
  have 4: "fst (signer_call (Inr stub_subtle) (hashAndSign seed_01 msg_abc) [])
     = Inl (EngineError ''DataError'')"
    by (simp add: signer_call_def hashAndSign_simps bare stub_subtle_def stub_importKey_def)
  have i: "importKey stub_subtle (Jwk (hashAndSign_jwk ?pk)) True [''sign'']
      = Inr (StubPrivateKey (base64url (replicate 32 2)) (base64url (replicate 32 1)))"
    using stub_importKey_seed_jwk [of "replicate 32 1"] by (simp add: full)
  have 5: "fst (signer_call (Inr stub_subtle) (hashAndSign ?pk msg_abc) [])
     = Inr (Uint8Array_of_buffer (map byte_of_char (base64url (replicate 32 2)) @ [97, 98, 99]))"
    by (simp add: signer_call_def signer_sign_def hashAndSign_simps i bytes_msg_abc Let_def)
       (simp add: stub_subtle_def stub_sign_def)
  from 1 2 3 4 5 show ?thesis by blast
qed








lemma signer_call_steps:
  "run_schedule [(0, cg), (0, cg), (0, cg)] ([NotStarted], s, calls) =
     ([Settled (fst (signer_call cg s calls))], snd (signer_call cg s calls))"
  by (cases cg; cases "signer_key s")
     (simp_all add: signer_step_def signer_step_sign_def signer_call_def signer_sign_def
       Let_def split: sum.splits)

lemma verifier_call_absent:
  "verifier_call (Inl e) (hashAndVerify pub sg msg) calls = (Inl e, hashAndVerify pub sg msg, calls)"
  by (simp add: verifier_call_def hashAndVerify_def)




text \<open>
  C8, as stated: the verifier resolves to a boolean, and only key material the engine
  rejects gives an error. For a public key of 32 bytes that the engine accepts and a
  signature of 64 zero bytes, the verifier rejects with the error of \<^verbatim>\<open>crypto.get()\<close>
  where the platform has no engine, and with the engine's error where the engine rejects
  the verification itself.
\<close>

theorem verifier_error_counterexample:
  "fst (verifier_call (Inl WebCryptoMissing)
        (hashAndVerify (stub_getPublicKey (replicate 32 1)) (new_Uint8Array 64) msg_abc) [])
     = Inl WebCryptoMissing
   \<and> importKey verify_rejecting_subtle
        (Raw (buffer (stub_getPublicKey (replicate 32 1)))) False [''verify'']
     = Inr (StubPublicKey (replicate 32 2))
   \<and> fst (verifier_call (Inr verify_rejecting_subtle)
        (hashAndVerify (stub_getPublicKey (replicate 32 1)) (new_Uint8Array 64) msg_abc) [])
     = Inl (EngineError ''OperationError'')"
proof -
  have buf: "buffer (stub_getPublicKey (replicate 32 1)) = replicate 32 2"
    by (simp add: stub_getPublicKey_def Uint8Array_of_buffer_def buffer_def)
  have k: "importKey verify_rejecting_subtle
        (Raw (buffer (stub_getPublicKey (replicate 32 1)))) False [''verify'']
     = Inr (StubPublicKey (replicate 32 2))"
    by (simp add: buf verify_rejecting_subtle_def stub_importKey_def)
  have v: "verify verify_rejecting_subtle key sg m = Inl (EngineError ''OperationError'')"
    for key sg m
    by (simp add: verify_rejecting_subtle_def)
  show ?thesis
    by (simp add: verifier_call_absent verifier_call_fresh k v)
qed

text \<open>
  C8, amended. The verifier adds nothing to what the platform and the engine do. It
  resolves to a boolean exactly when the engine is present, accepts the key material and
  resolves the verification to that boolean (\<open>False\<close> for a signature the engine finds
  invalid). It rejects with an error exactly when \<^verbatim>\<open>crypto.get()\<close> throws that error,
  or the engine rejects the key material with it, or the engine accepts the key material
  and rejects the verification with it.
\<close>

theorem verifier_resolves_boolean:
  "(fst (verifier_call cg (hashAndVerify pub sig msg) calls) = Inr b \<longleftrightarrow>
      (\<exists>subtle key. cg = Inr subtle
         \<and> importKey subtle (Raw (buffer pub)) False [''verify''] = Inr key
         \<and> verify subtle key (bytes sig) (bytes (msg_view msg)) = Inr b))
   \<and> (fst (verifier_call cg (hashAndVerify pub sig msg) calls) = Inl e \<longleftrightarrow>
        cg = Inl e
        \<or> (\<exists>subtle. cg = Inr subtle
              \<and> (importKey subtle (Raw (buffer pub)) False [''verify''] = Inl e
                 \<or> (\<exists>key. importKey subtle (Raw (buffer pub)) False [''verify''] = Inr key
                       \<and> verify subtle key (bytes sig) (bytes (msg_view msg)) = Inl e))))"
proof (cases cg)
  case (Inl e')
  then show ?thesis
    by (auto simp: verifier_call_absent)
next
  case (Inr subtle)
  show ?thesis
  proof (cases "importKey subtle (Raw (buffer pub)) False [''verify'']")
    case (Inl e')
    with Inr show ?thesis
      by (auto simp: verifier_call_fresh)
  next
    case k: (Inr key)
    with Inr show ?thesis
      by (auto simp: verifier_call_fresh)
  qed
qed

theorem verifier_resolves_boolean_witness:
  "importKey stub_subtle (Raw (buffer (stub_getPublicKey (replicate 32 1)))) False [''verify'']
     = Inr (StubPublicKey (replicate 32 2))
   \<and> fst (verifier_call (Inr stub_subtle)
        (hashAndVerify (stub_getPublicKey (replicate 32 1)) (new_Uint8Array 64) msg_abc) [])
     = Inr False"
proof -
  let ?pub = "stub_getPublicKey (replicate 32 1)"
  have buf: "buffer ?pub = replicate 32 2"
    by (simp add: stub_getPublicKey_def Uint8Array_of_buffer_def buffer_def)
  have k: "importKey stub_subtle (Raw (buffer ?pub)) False [''verify'']
     = Inr (StubPublicKey (replicate 32 2))"
    by (simp add: buf stub_importKey_raw)
  have len: "length (bytes (new_Uint8Array 64)) = 64"
    by (simp add: new_Uint8Array_def bytes_def)
  have "length (map byte_of_char (base64url (replicate 32 2)) @ bytes (msg_view msg_abc)) = 46"
    by (simp add: length_base64url bytes_msg_abc)
  with len have ne: "bytes (new_Uint8Array 64)
      \<noteq> map byte_of_char (base64url (replicate 32 2)) @ bytes (msg_view msg_abc)"
    by auto
  have f: "verify stub_subtle (StubPublicKey (replicate 32 2)) (bytes (new_Uint8Array 64))
      (bytes (msg_view msg_abc)) = Inr False"
    using ne by (simp add: stub_verify_public)
  have "fst (verifier_call (Inr stub_subtle) (hashAndVerify ?pub (new_Uint8Array 64) msg_abc) [])
     = Inr False"
    using verifier_resolves_boolean
      [of "Inr stub_subtle" ?pub "new_Uint8Array 64" msg_abc "[]" False] k f
    by blast
  with k show ?thesis by simp
qed

text \<open>
  C9. The first engine call of a new verifier is the import of \<^verbatim>\<open>publicKey.buffer\<close>,
  the whole backing buffer, whatever the array's offset and length. That material is
  the bytes of the public key exactly when the array spans its buffer. It is not for
  the last 32 bytes of a private key made by \<open>concatKeys\<close>, taken with
  \<^verbatim>\<open>subarray(32)\<close>: an array of 32 bytes on a buffer of 64.
\<close>

theorem hashAndVerify_imports_buffer:
  "take 1 (snd (snd (verifier_call (Inr subtle) (hashAndVerify pub sig msg) [])))
     = [ImportKeyCall (Raw (buffer pub)) False [''verify'']]
   \<and> (buffer pub = bytes pub \<longleftrightarrow> spans_buffer pub)
   \<and> u8_length (subarray (concatKeys r p) 32 None) = 32
   \<and> buffer (subarray (concatKeys r p) 32 None) \<noteq> bytes (subarray (concatKeys r p) 32 None)"
proof -
  have 1: "take 1 (snd (snd (verifier_call (Inr subtle) (hashAndVerify pub sig msg) [])))
     = [ImportKeyCall (Raw (buffer pub)) False [''verify'']]"
    by (simp add: verifier_call_fresh split: sum.splits)
  have 3: "u8_length (subarray (concatKeys r p) 32 None) = 32"
    by (simp add: subarray_def Let_def u8_length_def window_concatKeys length_first32)
  have "length (buffer (subarray (concatKeys r p) 32 None)) = 64"
    by (simp add: subarray_def Let_def u8_length_def buffer_def window_concatKeys
        length_first32 concatKeys_fresh)
  moreover have "length (bytes (subarray (concatKeys r p) 32 None)) = 32"
    using 3 by (simp add: u8_length_def bytes_def)
  ultimately have 4: "buffer (subarray (concatKeys r p) 32 None)
       \<noteq> bytes (subarray (concatKeys r p) 32 None)"
    by auto
  from 1 3 4 show ?thesis
    by (simp add: spans_buffer_iff)
qed

end
